theory Spec2Isabelle
  imports Complex_Main
begin

section \<open>Character presets (lib/presets.js)\<close>

text \<open>
  JavaScript strings are modelled as \<open>string\<close> (a list of characters). The preset
  tables are ASCII, so one list element is one UTF-16 code unit of the source string.
\<close>

definition upper :: string where
  "upper = ''ABCDEFGHIJKLMNOPQRSTUVWXYZ''"

definition lower :: string where
  "lower = ''abcdefghijklmnopqrstuvwxyz''"

definition numbers :: string where
  "numbers = ''0123456789''"

text \<open>The \<open>switch\<close> of \<open>buildCharPreset\<close>, in the order of the source; \<open>"all"\<close> and
  \<open>default\<close> share one branch.\<close>

definition buildCharPreset :: "string \<Rightarrow> string" where
  "buildCharPreset type =
     (if type = ''upper'' then upper
      else if type = ''lower'' then lower
      else if type = ''numbers'' then numbers
      else if type = ''letters'' then upper @ lower
      else if type = ''upper-alphanum'' then upper @ numbers
      else if type = ''lower-alphanum'' then lower @ numbers
      else upper @ lower @ numbers)"

definition presetNames :: "string list" where
  "presetNames = [''upper'', ''lower'', ''numbers'', ''letters'',
                  ''upper-alphanum'', ''lower-alphanum'', ''all'']"

section \<open>JavaScript numbers\<close>

text \<open>
  A JavaScript number is a finite value, one of the two infinities, or NaN. Finite
  values are taken as exact reals: rounding and overflow of the binary64 format are left
  out. Zero is unsigned and divides as \<open>+0\<close>; the divisors of the layout code are sums
  that start at \<open>+0\<close>, and such a sum is never \<open>-0\<close>.
\<close>

datatype jsnum = Num real | PosInf | NegInf | NaN

fun js_neg :: "jsnum \<Rightarrow> jsnum" where
  "js_neg (Num a) = Num (- a)"
| "js_neg PosInf = NegInf"
| "js_neg NegInf = PosInf"
| "js_neg NaN = NaN"

fun js_add :: "jsnum \<Rightarrow> jsnum \<Rightarrow> jsnum" where
  "js_add (Num a) (Num b) = Num (a + b)"
| "js_add NaN _ = NaN"
| "js_add _ NaN = NaN"
| "js_add PosInf NegInf = NaN"
| "js_add NegInf PosInf = NaN"
| "js_add PosInf _ = PosInf"
| "js_add NegInf _ = NegInf"
| "js_add (Num a) PosInf = PosInf"
| "js_add (Num a) NegInf = NegInf"

definition js_sub :: "jsnum \<Rightarrow> jsnum \<Rightarrow> jsnum" where
  "js_sub a b = js_add a (js_neg b)"

text \<open>The sign of an infinite product or quotient: \<open>flip\<close> tells whether the other
  operand is negative.\<close>

fun js_inf :: "bool \<Rightarrow> jsnum \<Rightarrow> jsnum" where
  "js_inf flip x = (if flip then js_neg x else x)"

fun js_mul :: "jsnum \<Rightarrow> jsnum \<Rightarrow> jsnum" where
  "js_mul (Num a) (Num b) = Num (a * b)"
| "js_mul NaN _ = NaN"
| "js_mul _ NaN = NaN"
| "js_mul PosInf (Num b) = (if b = 0 then NaN else js_inf (b < 0) PosInf)"
| "js_mul NegInf (Num b) = (if b = 0 then NaN else js_inf (b < 0) NegInf)"
| "js_mul (Num a) PosInf = (if a = 0 then NaN else js_inf (a < 0) PosInf)"
| "js_mul (Num a) NegInf = (if a = 0 then NaN else js_inf (a < 0) NegInf)"
| "js_mul PosInf PosInf = PosInf"
| "js_mul PosInf NegInf = NegInf"
| "js_mul NegInf PosInf = NegInf"
| "js_mul NegInf NegInf = PosInf"

fun js_div :: "jsnum \<Rightarrow> jsnum \<Rightarrow> jsnum" where
  "js_div (Num a) (Num b) =
     (if b \<noteq> 0 then Num (a / b)
      else if 0 < a then PosInf else if a < 0 then NegInf else NaN)"
| "js_div NaN _ = NaN"
| "js_div _ NaN = NaN"
| "js_div (Num a) PosInf = Num 0"
| "js_div (Num a) NegInf = Num 0"
| "js_div PosInf (Num b) = js_inf (b < 0) PosInf"
| "js_div NegInf (Num b) = js_inf (b < 0) NegInf"
| "js_div PosInf _ = NaN"
| "js_div NegInf _ = NaN"

text \<open>The relation \<open><\<close>; every comparison with NaN is false.\<close>

fun js_lt :: "jsnum \<Rightarrow> jsnum \<Rightarrow> bool" where
  "js_lt (Num a) (Num b) = (a < b)"
| "js_lt NaN _ = False"
| "js_lt _ NaN = False"
| "js_lt _ NegInf = False"
| "js_lt PosInf _ = False"
| "js_lt NegInf _ = True"
| "js_lt (Num a) PosInf = True"

text \<open>\<open>Math.min\<close> of two arguments: NaN if either is NaN.\<close>

definition js_min :: "jsnum \<Rightarrow> jsnum \<Rightarrow> jsnum" where
  "js_min a b = (if a = NaN \<or> b = NaN then NaN else if js_lt b a then b else a)"

text \<open>\<open>Math.floor\<close>.\<close>

fun js_floor :: "jsnum \<Rightarrow> jsnum" where
  "js_floor (Num a) = Num (of_int \<lfloor>a\<rfloor>)"
| "js_floor x = x"

text \<open>Reading \<open>xs[i]\<close>: an element when \<open>i\<close> is an integer within range, \<open>undefined\<close>
  (\<open>None\<close>) otherwise.\<close>

definition js_index :: "'a list \<Rightarrow> jsnum \<Rightarrow> 'a option" where
  "js_index xs i =
     (case i of
        Num x \<Rightarrow>
          (if 0 \<le> x \<and> x < real (length xs) \<and> of_int \<lfloor>x\<rfloor> = x
           then Some (xs ! nat \<lfloor>x\<rfloor>) else None)
      | _ \<Rightarrow> None)"

text \<open>The number of rounds of \<open>for (let s = 0; s < n; s++)\<close>; \<open>None\<close> when the loop
  never ends.\<close>

fun loopCount :: "jsnum \<Rightarrow> nat option" where
  "loopCount (Num a) = Some (nat \<lceil>a\<rceil>)"
| "loopCount PosInf = None"
| "loopCount NegInf = Some 0"
| "loopCount NaN = Some 0"

section \<open>Random utilities (lib/random.js, lib/colors.js)\<close>

text \<open>
  \<open>Math.random\<close> is a sequence of reals given from outside; the \<open>k\<close>-th call returns
  \<open>rnd k\<close>. Every function that draws takes the index of the next draw and returns the
  index after its last one. That the values lie in \<open>[0, 1)\<close> is a hypothesis of the
  theorems that need it, not part of the functions.
\<close>

type_synonym rng = "nat \<Rightarrow> real"

text \<open>
  \<open>Math.floor(Math.random() * (max - min) + min)\<close> in exact arithmetic. In binary64
  the sum can round up for a draw next to 1 (\<open>randomInt(2, 4)\<close> then returns 4); that
  rounding is outside this model.
\<close>

definition randomInt :: "rng \<Rightarrow> jsnum \<Rightarrow> jsnum \<Rightarrow> nat \<Rightarrow> jsnum \<times> nat" where
  "randomInt rnd lo hi k =
     (js_floor (js_add (js_mul (Num (rnd k)) (js_sub hi lo)) lo), Suc k)"

text \<open>A colour is a literal given by the caller or the \<open>rgb(r,g,b)\<close> template filled
  with three numbers.\<close>

datatype colour = ColourLit string | Rgb jsnum jsnum jsnum

definition randomColor :: "rng \<Rightarrow> nat \<Rightarrow> colour \<times> nat" where
  "randomColor rnd k =
     (let (r, k1) = randomInt rnd (Num 0) (Num 255) k;
          (g, k2) = randomInt rnd (Num 0) (Num 255) k1;
          (b, k3) = randomInt rnd (Num 0) (Num 255) k2
      in (Rgb r g b, k3))"

section \<open>Configuration and generator instance (CaptchaGenerator.js)\<close>

text \<open>
  The merged option object. \<open>size\<close> and \<open>noise\<close> are counts and hold integers; the
  geometric options are numbers. The field \<open>size\<close> of the source is \<open>size_opt\<close> here.
\<close>

record Options =
  size_opt :: int
  ignoreChars :: string
  noise :: int
  background :: colour
  width :: jsnum
  height :: jsnum
  fontSize :: jsnum
  presetType :: string
  fontFiles :: "string list"
  fontColour :: colour
  noiseColour :: colour
  noiseWidth :: jsnum
  messy :: bool

text \<open>The object the caller passes: every key may be absent.\<close>

record CaptchaOptions =
  given_size :: "int option"
  given_ignoreChars :: "string option"
  given_noise :: "int option"
  given_background :: "colour option"
  given_width :: "jsnum option"
  given_height :: "jsnum option"
  given_fontSize :: "jsnum option"
  given_presetType :: "string option"
  given_fontFiles :: "string list option"
  given_fontColour :: "colour option"
  given_noiseColour :: "colour option"
  given_noiseWidth :: "jsnum option"
  given_messy :: "bool option"

definition noOptions :: CaptchaOptions where
  "noOptions =
     \<lparr>given_size = None, given_ignoreChars = None, given_noise = None,
      given_background = None, given_width = None, given_height = None,
      given_fontSize = None, given_presetType = None, given_fontFiles = None,
      given_fontColour = None, given_noiseColour = None, given_noiseWidth = None,
      given_messy = None\<rparr>"

definition override :: "'a \<Rightarrow> 'a option \<Rightarrow> 'a" where
  "override d g = (case g of None \<Rightarrow> d | Some v \<Rightarrow> v)"

text \<open>The spread \<open>{ ...this.defaults, ...options }\<close>: a key of the caller wins.\<close>

definition spread :: "Options \<Rightarrow> CaptchaOptions \<Rightarrow> Options" where
  "spread d g =
     \<lparr>size_opt = override (size_opt d) (given_size g),
      ignoreChars = override (ignoreChars d) (given_ignoreChars g),
      noise = override (noise d) (given_noise g),
      background = override (background d) (given_background g),
      width = override (width d) (given_width g),
      height = override (height d) (given_height g),
      fontSize = override (fontSize d) (given_fontSize g),
      presetType = override (presetType d) (given_presetType g),
      fontFiles = override (fontFiles d) (given_fontFiles g),
      fontColour = override (fontColour d) (given_fontColour g),
      noiseColour = override (noiseColour d) (given_noiseColour g),
      noiseWidth = override (noiseWidth d) (given_noiseWidth g),
      messy = override (messy d) (given_messy g)\<rparr>"

text \<open>The instance: \<open>null\<close> in \<open>captchaKey\<close> and \<open>captchaText\<close> is \<open>None\<close>.\<close>

record CaptchaGenerator =
  defaults :: Options
  options :: Options
  chars :: "char list"
  captchaKey :: "string option"
  captchaText :: "string option"

text \<open>
  The constructor. \<open>bundledFont\<close> is the path of the font shipped with the package
  (\<open>join(__dirname, "../fonts/LiberationSerif-wlR9.ttf")\<close>). The two default colours are
  drawn whether or not the caller overrides them.
\<close>

definition new_CaptchaGenerator ::
  "rng \<Rightarrow> string \<Rightarrow> CaptchaOptions \<Rightarrow> string list \<Rightarrow> nat \<Rightarrow> CaptchaGenerator \<times> nat" where
  "new_CaptchaGenerator rnd bundledFont opts fontsFamily k =
     (let (fc, k1) = randomColor rnd k;
          (nc, k2) = randomColor rnd k1;
          d = \<lparr>size_opt = 6, ignoreChars = [], noise = 2,
               background = ColourLit ''#ffffff'', width = Num 150, height = Num 50,
               fontSize = Num 36, presetType = ''all'',
               fontFiles = (if length fontsFamily > 0 then fontsFamily else [bundledFont]),
               fontColour = fc, noiseColour = nc, noiseWidth = Num 2, messy = True\<rparr>;
          opt = spread d opts
      in (\<lparr>defaults = d, options = opt,
           chars = filter (\<lambda>ch. ch \<notin> set (ignoreChars opt))
                     (buildCharPreset (presetType opt)),
           captchaKey = None, captchaText = None\<rparr>, k2))"

section \<open>Errors\<close>

text \<open>
  What a call can end with instead of a value: a thrown \<open>Error\<close> with its message, a
  \<open>TypeError\<close> (a property read on \<open>undefined\<close>), a \<open>RangeError\<close> (an invalid array
  length), a rejected font load, or a loop that never ends.
\<close>

datatype error =
  Error string | TypeError | RangeError | FontLoadError string | NonTermination

section \<open>Answer text\<close>

text \<open>
  \<open>Array.from({ length: size }, () => this.chars[randomInt(0, this.chars.length)])\<close>:
  one draw per element, in order; an index out of range reads \<open>undefined\<close>.
\<close>

fun drawChars :: "rng \<Rightarrow> char list \<Rightarrow> nat \<Rightarrow> nat \<Rightarrow> char option list \<times> nat" where
  "drawChars rnd cs 0 k = ([], k)"
| "drawChars rnd cs (Suc n) k =
     (let (i, k1) = randomInt rnd (Num 0) (Num (real (length cs))) k;
          (rest, k2) = drawChars rnd cs n k1
      in (js_index cs i # rest, k2))"

text \<open>\<open>join("")\<close> renders \<open>undefined\<close> as the empty string.\<close>

definition joinChars :: "char option list \<Rightarrow> string" where
  "joinChars xs = concat (map (\<lambda>x. case x of None \<Rightarrow> [] | Some c \<Rightarrow> [c]) xs)"

text \<open>The array length is the size clamped at 0; a length above \<open>2^32 - 1\<close> is a
  \<open>RangeError\<close>.\<close>

definition generateText :: "rng \<Rightarrow> CaptchaGenerator \<Rightarrow> nat \<Rightarrow> error + (string \<times> nat)" where
  "generateText rnd this k =
     (if size_opt (options this) > 2 ^ 32 - 1 then Inl RangeError
      else (let (cs, k1) = drawChars rnd (chars this) (nat (size_opt (options this))) k
            in Inr (joinChars cs, k1)))"

section \<open>Fonts (the opentype.js collaborator)\<close>

text \<open>
  A loaded font is what the layout reads of it: its units per em and, for a character,
  a glyph with its advance width and the path data \<open>getPath(x, y, size).toPathData(2)\<close>.
  \<open>opentype.load\<close> is a function from outside; \<open>None\<close> is a rejected load.
\<close>

record glyph =
  advanceWidth :: jsnum
  getPath :: "jsnum \<Rightarrow> jsnum \<Rightarrow> jsnum \<Rightarrow> string"

record font =
  unitsPerEm :: jsnum
  charToGlyph :: "char \<Rightarrow> glyph"

fun loadAll :: "(string \<Rightarrow> font option) \<Rightarrow> string list \<Rightarrow> error + font list" where
  "loadAll load [] = Inr []"
| "loadAll load (file # files) =
     (case load file of
        None \<Rightarrow> Inl (FontLoadError file)
      | Some f \<Rightarrow> (case loadAll load files of Inl e \<Rightarrow> Inl e | Inr fs \<Rightarrow> Inr (f # fs)))"

section \<open>Glyph layout\<close>

text \<open>
  The markup is kept as structure: a glyph element is its path data, its fill and its
  \<open>rotate(angle cx cy)\<close> transform when it has one. How numbers print inside the
  template strings is not modelled.
\<close>

record glyph_path =
  d :: string
  fill :: colour
  transform :: "(jsnum \<times> jsnum \<times> jsnum) option"

definition baseline :: "Options \<Rightarrow> jsnum" where
  "baseline opt = js_add (js_div (height opt) (Num 2)) (js_div (fontSize opt) (Num 3))"

definition scaledAdvance :: "Options \<Rightarrow> font \<Rightarrow> glyph \<Rightarrow> jsnum" where
  "scaledAdvance opt f g = js_mul (advanceWidth g) (js_div (fontSize opt) (unitsPerEm f))"

definition startX :: "Options \<Rightarrow> jsnum \<Rightarrow> jsnum \<Rightarrow> jsnum" where
  "startX opt totalWidth scale =
     js_div (js_sub (width opt) (js_mul totalWidth scale)) (Num 2)"

subsection \<open>Straight mode\<close>

definition gap :: jsnum where
  "gap = Num 3"

definition straightNaturalWidth :: "Options \<Rightarrow> font \<Rightarrow> glyph list \<Rightarrow> jsnum" where
  "straightNaturalWidth opt f glyphs =
     foldl (\<lambda>sum g. js_add sum (scaledAdvance opt f g)) (Num 0) glyphs"

text \<open>\<open>naturalWidth + gap * (text.length - 1)\<close>.\<close>

definition straightTotalWidth :: "Options \<Rightarrow> font \<Rightarrow> glyph list \<Rightarrow> nat \<Rightarrow> jsnum" where
  "straightTotalWidth opt f glyphs len =
     js_add (straightNaturalWidth opt f glyphs)
            (js_mul gap (js_sub (Num (real len)) (Num 1)))"

definition straightScale :: "Options \<Rightarrow> jsnum \<Rightarrow> jsnum" where
  "straightScale opt totalWidth =
     js_min (Num 1) (js_div (js_sub (width opt) (Num 10)) totalWidth)"

fun emitStraight ::
  "Options \<Rightarrow> font \<Rightarrow> jsnum \<Rightarrow> jsnum \<Rightarrow> glyph list \<Rightarrow> jsnum \<Rightarrow> glyph_path list" where
  "emitStraight opt f scale y [] x = []"
| "emitStraight opt f scale y (g # gs) x =
     (let advance = js_mul (scaledAdvance opt f g) scale;
          p = \<lparr>d = getPath g x y (js_mul (fontSize opt) scale),
               fill = fontColour opt, transform = None\<rparr>
      in p # emitStraight opt f scale y gs (js_add x (js_add advance (js_mul gap scale))))"

text \<open>
  The font is \<open>loadedFonts[0]\<close>. With no font loaded it is \<open>undefined\<close>, and the first
  \<open>font.charToGlyph\<close> is a \<open>TypeError\<close>; with an empty text the font is never read.
\<close>

definition layoutStraight :: "Options \<Rightarrow> font list \<Rightarrow> string \<Rightarrow> error + glyph_path list" where
  "layoutStraight opt loadedFonts txt =
     (case loadedFonts of
        [] \<Rightarrow> (if txt = [] then Inr [] else Inl TypeError)
      | f # _ \<Rightarrow>
          (let glyphs = map (charToGlyph f) txt;
               totalWidth = straightTotalWidth opt f glyphs (length txt);
               scale = straightScale opt totalWidth
           in Inr (emitStraight opt f scale (baseline opt) glyphs
                     (startX opt totalWidth scale))))"

subsection \<open>Messy mode\<close>

text \<open>The measuring pass: one font draw per character.\<close>

fun measureMessy ::
  "rng \<Rightarrow> Options \<Rightarrow> font list \<Rightarrow> string \<Rightarrow> nat \<Rightarrow> error + (jsnum list \<times> nat)" where
  "measureMessy rnd opt loadedFonts [] k = Inr ([], k)"
| "measureMessy rnd opt loadedFonts (ch # chs) k =
     (let (i, k1) = randomInt rnd (Num 0) (Num (real (length loadedFonts))) k
      in case js_index loadedFonts i of
           None \<Rightarrow> Inl TypeError
         | Some f \<Rightarrow>
             (case measureMessy rnd opt loadedFonts chs k1 of
                Inl e \<Rightarrow> Inl e
              | Inr (ws, k2) \<Rightarrow> Inr (scaledAdvance opt f (charToGlyph f ch) # ws, k2)))"

definition messyTotalWidth :: "jsnum list \<Rightarrow> jsnum" where
  "messyTotalWidth glyphWidths = foldl (\<lambda>sum w. js_add sum w) (Num 0) glyphWidths"

definition messyScale :: "Options \<Rightarrow> jsnum \<Rightarrow> jsnum" where
  "messyScale opt totalWidth = js_min (Num 1) (js_div (width opt) totalWidth)"

text \<open>The emitting pass: a fresh font draw, then the rotation draw, per character.\<close>

fun emitMessy ::
  "rng \<Rightarrow> Options \<Rightarrow> font list \<Rightarrow> jsnum \<Rightarrow> jsnum \<Rightarrow> string \<Rightarrow> jsnum \<Rightarrow> nat \<Rightarrow>
   error + (glyph_path list \<times> nat)" where
  "emitMessy rnd opt loadedFonts scale y [] x k = Inr ([], k)"
| "emitMessy rnd opt loadedFonts scale y (ch # chs) x k =
     (let (i, k1) = randomInt rnd (Num 0) (Num (real (length loadedFonts))) k
      in case js_index loadedFonts i of
           None \<Rightarrow> Inl TypeError
         | Some f \<Rightarrow>
             (let g = charToGlyph f ch;
                  charWidth = js_mul (scaledAdvance opt f g) scale;
                  charX = js_add x (js_div charWidth (Num 2));
                  (rotate, k2) = randomInt rnd (Num (- 25)) (Num 25) k1;
                  p = \<lparr>d = getPath g x y (js_mul (fontSize opt) scale),
                       fill = fontColour opt, transform = Some (rotate, charX, y)\<rparr>
              in case emitMessy rnd opt loadedFonts scale y chs (js_add x charWidth) k2 of
                   Inl e \<Rightarrow> Inl e
                 | Inr (ps, k3) \<Rightarrow> Inr (p # ps, k3)))"

definition layoutMessy ::
  "rng \<Rightarrow> Options \<Rightarrow> font list \<Rightarrow> string \<Rightarrow> nat \<Rightarrow> error + (glyph_path list \<times> nat)" where
  "layoutMessy rnd opt loadedFonts txt k =
     (case measureMessy rnd opt loadedFonts txt k of
        Inl e \<Rightarrow> Inl e
      | Inr (glyphWidths, k1) \<Rightarrow>
          (let totalWidth = messyTotalWidth glyphWidths;
               scale = messyScale opt totalWidth
           in emitMessy rnd opt loadedFonts scale (baseline opt) txt
                (startX opt totalWidth scale) k1))"

section \<open>Noise\<close>

text \<open>The path data of a noise line is the list of its commands: \<open>M x y\<close>, then one
  \<open>Q cx cy, x y\<close> per segment.\<close>

datatype path_cmd = M jsnum jsnum | Q jsnum jsnum jsnum jsnum

record noise_path =
  pathData :: "path_cmd list"
  stroke :: colour
  noiseFill :: string
  strokeWidth :: jsnum

text \<open>The inner loop, \<open>n\<close> rounds left: \<open>d\<close> and \<open>prevX\<close> are the loop's variables.\<close>

fun noiseSegments ::
  "rng \<Rightarrow> CaptchaGenerator \<Rightarrow> jsnum \<Rightarrow> nat \<Rightarrow> path_cmd list \<Rightarrow> jsnum \<Rightarrow> nat \<Rightarrow>
   path_cmd list \<times> jsnum \<times> nat" where
  "noiseSegments rnd this segments 0 dd prevX k = (dd, prevX, k)"
| "noiseSegments rnd this segments (Suc n) dd prevX k =
     (let midX = js_add prevX (js_div (width (options this)) segments);
          (midY, k1) = randomInt rnd (Num 0) (height (options this)) k;
          endX = js_add midX (js_div (width (options this)) segments);
          (endY, k2) = randomInt rnd (Num 0) (height (options this)) k1
      in noiseSegments rnd this segments n (dd @ [Q midX midY endX endY]) endX k2)"

text \<open>One round of the outer loop. The stroke width is read from \<open>this.defaults\<close>, the
  stroke colour from \<open>this.options\<close>, as in the source.\<close>

definition noiseLine :: "rng \<Rightarrow> CaptchaGenerator \<Rightarrow> nat \<Rightarrow> error + (noise_path \<times> nat)" where
  "noiseLine rnd this k =
     (let (startY, k1) = randomInt rnd (Num 0) (height (options this)) k;
          (segments, k2) = randomInt rnd (Num 2) (Num 4) k1
      in case loopCount segments of
           None \<Rightarrow> Inl NonTermination
         | Some n \<Rightarrow>
             (let (dd, prevX, k3) =
                    noiseSegments rnd this segments n [M (Num 0) startY] (Num 0) k2
              in Inr (\<lparr>pathData = dd, stroke = noiseColour (options this),
                       noiseFill = ''none'',
                       strokeWidth = noiseWidth (defaults this)\<rparr>, k3)))"

fun noiseLines ::
  "rng \<Rightarrow> CaptchaGenerator \<Rightarrow> nat \<Rightarrow> nat \<Rightarrow> error + (noise_path list \<times> nat)" where
  "noiseLines rnd this 0 k = Inr ([], k)"
| "noiseLines rnd this (Suc n) k =
     (case noiseLine rnd this k of
        Inl e \<Rightarrow> Inl e
      | Inr (p, k1) \<Rightarrow>
          (case noiseLines rnd this n k1 of
             Inl e \<Rightarrow> Inl e
           | Inr (ps, k2) \<Rightarrow> Inr (p # ps, k2)))"

text \<open>\<open>for (let i = 0; i < count; i++)\<close> over an integer count runs \<open>count\<close> rounds, none
  for a negative count.\<close>

definition generateWavyNoise ::
  "rng \<Rightarrow> CaptchaGenerator \<Rightarrow> int \<Rightarrow> nat \<Rightarrow> error + (noise_path list \<times> nat)" where
  "generateWavyNoise rnd this count k = noiseLines rnd this (nat count) k"

section \<open>Verification key\<close>

definition keyAlphabet :: string where
  "keyAlphabet = ''ABCDEFGHIJKLMNOPQRSTUVWXYZabcdefghijklmnopqrstuvwxyz0123456789''"

definition digits36 :: string where
  "digits36 = ''0123456789abcdefghijklmnopqrstuvwxyz''"

text \<open>\<open>Number.prototype.toString(36)\<close> on a non-negative integer.\<close>

function toString36 :: "nat \<Rightarrow> string" where
  "toString36 n =
     (if n < 36 then [digits36 ! n] else toString36 (n div 36) @ [digits36 ! (n mod 36)])"
  by pat_completeness auto
termination
  by (relation "measure (\<lambda>n. n)") auto

declare toString36.simps [simp del]

text \<open>The loop of \<open>generateKey\<close>; \<open>key += undefined\<close> appends the word \<open>undefined\<close>.\<close>

fun keyChars :: "rng \<Rightarrow> nat \<Rightarrow> string \<Rightarrow> nat \<Rightarrow> string \<times> nat" where
  "keyChars rnd 0 ky k = (ky, k)"
| "keyChars rnd (Suc n) ky k =
     (let (i, k1) = randomInt rnd (Num 0) (Num (real (length keyAlphabet))) k
      in keyChars rnd n
           (ky @ (case js_index keyAlphabet i of None \<Rightarrow> ''undefined'' | Some c \<Rightarrow> [c])) k1)"

text \<open>\<open>now\<close> is the value of \<open>Date.now()\<close>.\<close>

definition generateKey :: "rng \<Rightarrow> nat \<Rightarrow> nat \<Rightarrow> nat \<Rightarrow> string \<times> nat" where
  "generateKey rnd now len k =
     (let (ky, k1) = keyChars rnd len [] k in (ky @ toString36 now, k1))"

section \<open>The orchestrator: generate\<close>

record svg =
  svgWidth :: jsnum
  svgHeight :: jsnum
  rectFill :: colour
  noiseSVG :: "noise_path list"
  textSVG :: "glyph_path list"

text \<open>The returned object \<open>{ key, text, data }\<close>; \<open>text\<close> is the field \<open>answer\<close> here.\<close>

record captcha =
  key :: string
  answer :: string
  data :: svg

definition layoutText ::
  "rng \<Rightarrow> Options \<Rightarrow> font list \<Rightarrow> string \<Rightarrow> nat \<Rightarrow> error + (glyph_path list \<times> nat)" where
  "layoutText rnd opt loadedFonts txt k =
     (if \<not> messy opt
      then (case layoutStraight opt loadedFonts txt of
              Inl e \<Rightarrow> Inl e
            | Inr ps \<Rightarrow> Inr (ps, k))
      else layoutMessy rnd opt loadedFonts txt k)"

text \<open>
  \<open>generate\<close> returns the challenge, the instance with \<open>captchaKey\<close> and \<open>captchaText\<close>
  overwritten, and the index of the next draw; or the error that ended it.
\<close>

definition generate ::
  "rng \<Rightarrow> (string \<Rightarrow> font option) \<Rightarrow> nat \<Rightarrow> CaptchaGenerator \<Rightarrow> nat \<Rightarrow>
   error + (captcha \<times> CaptchaGenerator \<times> nat)" where
  "generate rnd load now this k =
     (case generateText rnd this k of
        Inl e \<Rightarrow> Inl e
      | Inr (txt, k1) \<Rightarrow>
     (case loadAll load (fontFiles (options this)) of
        Inl e \<Rightarrow> Inl e
      | Inr loadedFonts \<Rightarrow>
     (case layoutText rnd (options this) loadedFonts txt k1 of
        Inl e \<Rightarrow> Inl e
      | Inr (glyphPaths, k2) \<Rightarrow>
     (case generateWavyNoise rnd this (noise (options this)) k2 of
        Inl e \<Rightarrow> Inl e
      | Inr (noisePaths, k3) \<Rightarrow>
          (let image = \<lparr>svgWidth = width (options this), svgHeight = height (options this),
                        rectFill = background (options this),
                        noiseSVG = noisePaths, textSVG = glyphPaths\<rparr>;
               (ky, k4) = generateKey rnd now 16 k3
           in Inr (\<lparr>key = ky, answer = txt, data = image\<rparr>,
                   this\<lparr>captchaKey := Some ky, captchaText := Some txt\<rparr>, k4))))))"

section \<open>Storing and verifying\<close>

text \<open>
  The caller's store function is a function or some other value. A stored value, as the
  fetch function returns it, is \<open>null\<close>, \<open>undefined\<close>, a boolean or a string. The store
  itself is a state of any type \<open>'s\<close> that the caller's functions act on.
\<close>

datatype 'f callable = NotCallable | Fn 'f

datatype jsval = JNull | JUndefined | JBool bool | JStr string

fun truthy :: "jsval \<Rightarrow> bool" where
  "truthy JNull = False"
| "truthy JUndefined = False"
| "truthy (JBool b) = b"
| "truthy (JStr s) = (s \<noteq> [])"

definition storeCaptcha ::
  "'t \<Rightarrow> (string \<Rightarrow> string \<Rightarrow> 't \<Rightarrow> 's \<Rightarrow> error + 's) callable \<Rightarrow> CaptchaGenerator \<Rightarrow> 's \<Rightarrow>
   error + 's" where
  "storeCaptcha ttl setFn this st =
     (case setFn of
        NotCallable \<Rightarrow> Inl (Error ''setFn must be a function'')
      | Fn f \<Rightarrow>
          (case (captchaKey this, captchaText this) of
             (Some (c # cs), Some (t # ts)) \<Rightarrow> f (''captcha:'' @ c # cs) (t # ts) ttl st
           | _ \<Rightarrow> Inl (Error ''No captcha generated yet.'')))"

text \<open>\<open>storedValue && storedValue === userInput\<close>: the stored value itself when it is
  falsy, the comparison otherwise.\<close>

definition verifyCaptcha ::
  "string \<Rightarrow> string \<Rightarrow> (string \<Rightarrow> 's \<Rightarrow> error + jsval) callable \<Rightarrow> CaptchaGenerator \<Rightarrow> 's \<Rightarrow>
   error + jsval" where
  "verifyCaptcha userInput captchaKey' getFn this st =
     (case getFn of
        NotCallable \<Rightarrow> Inl (Error ''getFn must be a function'')
      | Fn f \<Rightarrow>
          (case f (''captcha:'' @ captchaKey') st of
             Inl e \<Rightarrow> Inl e
           | Inr storedValue \<Rightarrow>
               Inr (if truthy storedValue then JBool (storedValue = JStr userInput)
                    else storedValue)))"

section \<open>The random source and sample inputs\<close>

text \<open>The contract of \<open>Math.random\<close>: every value lies in \<open>[0, 1)\<close>.\<close>

definition inRange :: "rng \<Rightarrow> bool" where
  "inRange rnd = (\<forall>k. 0 \<le> rnd k \<and> rnd k < 1)"

text \<open>Concrete inputs on which the theorems below are instantiated: a random source
  that always returns one half, and a font whose every glyph is 500 units wide on a
  1000-unit em.\<close>

definition halfRnd :: rng where
  "halfRnd = (\<lambda>k. 1 / 2)"

definition sampleGlyph :: glyph where
  "sampleGlyph = \<lparr>advanceWidth = Num 500, getPath = (\<lambda>x y s. ''M0 0Z'')\<rparr>"

definition sampleFont :: font where
  "sampleFont = \<lparr>unitsPerEm = Num 1000, charToGlyph = (\<lambda>c. sampleGlyph)\<rparr>"

definition sampleLoad :: "string \<Rightarrow> font option" where
  "sampleLoad file = Some sampleFont"

text \<open>The options \<open>{ size: 6, presetType: "numbers", noise: 0 }\<close>.\<close>

definition sampleOptions :: CaptchaOptions where
  "sampleOptions =
     noOptions\<lparr>given_size := Some 6, given_presetType := Some ''numbers'',
               given_noise := Some 0\<rparr>"

text \<open>The options \<open>{ presetType: "numbers", ignoreChars: "0123456789" }\<close>.\<close>

definition digitsIgnored :: CaptchaOptions where
  "digitsIgnored =
     noOptions\<lparr>given_presetType := Some ''numbers'', given_ignoreChars := Some ''0123456789''\<rparr>"

text \<open>
  The in-memory store of the package's demo script: \<open>setFn\<close> puts the value under the
  key, \<open>getFn\<close> is \<open>memoryStore.get(key) || null\<close>. Expiry is not modelled.
\<close>

definition memorySet ::
  "string \<Rightarrow> string \<Rightarrow> 't \<Rightarrow> (string \<rightharpoonup> string) \<Rightarrow> error + (string \<rightharpoonup> string)" where
  "memorySet k v ttl st = Inr (st(k \<mapsto> v))"

definition memoryGet :: "string \<Rightarrow> (string \<rightharpoonup> string) \<Rightarrow> error + jsval" where
  "memoryGet k st =
     Inr (case st k of None \<Rightarrow> JNull | Some v \<Rightarrow> if v = [] then JNull else JStr v)"

text \<open>A store function that only records its calls.\<close>

definition recordCall ::
  "string \<Rightarrow> string \<Rightarrow> 't \<Rightarrow> (string \<times> string \<times> 't) list \<Rightarrow>
   error + (string \<times> string \<times> 't) list" where
  "recordCall k v ttl calls = Inr (calls @ [(k, v, ttl)])"

text \<open>An instance whose last challenge has key \<open>k2\<close> and answer \<open>ABC\<close>.\<close>

definition afterSecond :: CaptchaGenerator where
  "afterSecond =
     (fst (new_CaptchaGenerator halfRnd ''font.ttf'' noOptions [] 0))
       \<lparr>captchaKey := Some ''k2'', captchaText := Some ''ABC''\<rparr>"

text \<open>The options \<open>{ noiseWidth: 5, noise: 1 }\<close>.\<close>

definition wideNoise :: CaptchaOptions where
  "wideNoise = noOptions\<lparr>given_noiseWidth := Some (Num 5), given_noise := Some 1\<rparr>"

section \<open>Properties\<close>

subsection \<open>Auxiliary facts about drawing and layout\<close>

lemma floor_scaled_bounds:
  fixes r :: real
  assumes "0 \<le> r" "r < 1" "0 < n"
  shows "0 \<le> \<lfloor>r * real n\<rfloor> \<and> \<lfloor>r * real n\<rfloor> < int n"
proof
  show "0 \<le> \<lfloor>r * real n\<rfloor>" using assms by simp
  have "r * real n < real n" using assms by simp
  then show "\<lfloor>r * real n\<rfloor> < int n" by (simp add: floor_less_iff)
qed

lemma randomInt_zero_based:
  "randomInt rnd (Num 0) (Num x) k = (Num (of_int \<lfloor>rnd k * x\<rfloor>), Suc k)"
  by (simp add: randomInt_def js_sub_def)

lemma js_index_drawn:
  assumes "inRange rnd" "xs \<noteq> []"
  shows "\<exists>j < length xs.
           js_index xs (fst (randomInt rnd (Num 0) (Num (real (length xs))) k)) = Some (xs ! j)"
proof -
  have r: "0 \<le> rnd k" "rnd k < 1" using assms(1) by (auto simp: inRange_def)
  have n: "0 < length xs" using assms(2) by simp
  from floor_scaled_bounds[OF r n]
  have b: "0 \<le> \<lfloor>rnd k * real (length xs)\<rfloor>" "\<lfloor>rnd k * real (length xs)\<rfloor> < int (length xs)"
    by auto
  then have "js_index xs (fst (randomInt rnd (Num 0) (Num (real (length xs))) k))
           = Some (xs ! nat \<lfloor>rnd k * real (length xs)\<rfloor>) \<and>
         nat \<lfloor>rnd k * real (length xs)\<rfloor> < length xs"
    by (simp add: randomInt_zero_based js_index_def) linarith
  then show ?thesis by blast
qed

lemma snd_randomInt: "snd (randomInt rnd lo hi k) = Suc k"
  by (simp add: randomInt_def)

lemma drawChars_members:
  assumes "inRange rnd" "cs \<noteq> []"
  shows "length (fst (drawChars rnd cs n k)) = n \<and>
         (\<forall>x \<in> set (fst (drawChars rnd cs n k)). \<exists>c \<in> set cs. x = Some c)"
proof (induction n arbitrary: k)
  case 0
  show ?case by simp
next
  case (Suc n)
  obtain j where j: "j < length cs"
    "js_index cs (fst (randomInt rnd (Num 0) (Num (real (length cs))) k)) = Some (cs ! j)"
    using js_index_drawn[OF assms] by blast
  have m: "cs ! j \<in> set cs" using j(1) by simp
  show ?case using Suc[of "Suc k"] j(2) m
    by (simp add: split_def Let_def snd_randomInt)
qed

lemma joinChars_all_Some:
  assumes "\<forall>x \<in> set xs. \<exists>c \<in> set cs. x = Some c"
  shows "length (joinChars xs) = length xs \<and> set (joinChars xs) \<subseteq> set cs"
  using assms
proof (induction xs)
  case Nil
  show ?case by (simp add: joinChars_def)
next
  case (Cons x xs)
  then obtain c where "c \<in> set cs" "x = Some c" by auto
  with Cons show ?case by (simp add: joinChars_def)
qed

lemma generateText_ok:
  assumes "inRange rnd" "chars this \<noteq> []"
    "0 \<le> size_opt (options this)" "size_opt (options this) \<le> 2 ^ 32 - 1"
  shows "\<exists>txt k1. generateText rnd this k = Inr (txt, k1) \<and>
           int (length txt) = size_opt (options this) \<and> set txt \<subseteq> set (chars this)"
proof -
  let ?n = "nat (size_opt (options this))"
  let ?cs = "fst (drawChars rnd (chars this) ?n k)"
  from drawChars_members[OF assms(1,2), of ?n k]
  have a: "length ?cs = ?n" and b: "\<forall>x \<in> set ?cs. \<exists>c \<in> set (chars this). x = Some c"
    by auto
  from joinChars_all_Some[OF b] a assms(3)
  have "int (length (joinChars ?cs)) = size_opt (options this) \<and>
        set (joinChars ?cs) \<subseteq> set (chars this)" by simp
  then show ?thesis using assms(4)
    by (simp add: generateText_def split_def Let_def)
qed

lemma measureMessy_ok:
  assumes "inRange rnd" "fs \<noteq> []"
  shows "\<exists>ws k1. measureMessy rnd opt fs s k = Inr (ws, k1)"
proof (induction s arbitrary: k)
  case Nil
  show ?case by simp
next
  case (Cons ch chs)
  obtain j where j: 
    "js_index fs (fst (randomInt rnd (Num 0) (Num (real (length fs))) k)) = Some (fs ! j)"
    using js_index_drawn[OF assms] by blast
  obtain ws k1 where "measureMessy rnd opt fs chs (Suc k) = Inr (ws, k1)"
    using Cons by blast
  then show ?case using j
    by (simp add: split_def snd_randomInt)
qed

lemma emitMessy_ok:
  assumes "inRange rnd" "fs \<noteq> []"
  shows "\<exists>ps k1. emitMessy rnd opt fs scale y s x k = Inr (ps, k1)"
proof (induction s arbitrary: k x)
  case Nil
  show ?case by simp
next
  case (Cons ch chs)
  obtain j where j: 
    "js_index fs (fst (randomInt rnd (Num 0) (Num (real (length fs))) k)) = Some (fs ! j)"
    using js_index_drawn[OF assms] by blast
  let ?x' = "js_add x (js_mul (scaledAdvance opt (fs ! j) (charToGlyph (fs ! j) ch)) scale)"
  obtain ps k1 where "emitMessy rnd opt fs scale y chs ?x' (Suc (Suc k)) = Inr (ps, k1)"
    using Cons by blast
  then show ?case using j
    by (simp add: split_def snd_randomInt Let_def)
qed

lemma layoutText_ok:
  assumes "inRange rnd" "fs \<noteq> []"
  shows "\<exists>ps k1. layoutText rnd opt fs txt k = Inr (ps, k1)"
proof (cases "messy opt")
  case True
  obtain ws k1 where m: "measureMessy rnd opt fs txt k = Inr (ws, k1)"
    using measureMessy_ok[OF assms] by blast
  show ?thesis using True m emitMessy_ok[OF assms]
    by (simp add: layoutText_def layoutMessy_def Let_def)
next
  case False
  obtain f rest where "fs = f # rest" using assms(2) by (cases fs) auto
  then show ?thesis using False
    by (simp add: layoutText_def layoutStraight_def Let_def)
qed

lemma loadAll_nonempty:
  "loadAll load files = Inr fs \<Longrightarrow> files \<noteq> [] \<Longrightarrow> fs \<noteq> []"
  by (cases files) (auto split: option.splits sum.splits)



lemma noiseLine_total: "\<exists>p k1. noiseLine rnd this k = Inr (p, k1)"
  by (simp add: noiseLine_def randomInt_def js_sub_def split_def Let_def)

lemma noiseLines_total: "\<exists>ps k1. noiseLines rnd this n k = Inr (ps, k1)"
proof (induction n arbitrary: k)
  case 0
  show ?case by simp
next
  case (Suc n)
  obtain p k1 where p: "noiseLine rnd this k = Inr (p, k1)"
    using noiseLine_total by blast
  obtain ps k2 where "noiseLines rnd this n k1 = Inr (ps, k2)"
    using Suc by blast
  with p show ?case by simp
qed

lemma generate_returns:
  assumes "generateText rnd this k = Inr (s, k1)"
    and "loadAll load (fontFiles (options this)) = Inr fs"
    and "layoutText rnd (options this) fs s k1 = Inr (ps, k2)"
  shows "\<exists>c k4. generate rnd load now this k =
           Inr (c, this\<lparr>captchaKey := Some (key c), captchaText := Some s\<rparr>, k4) \<and>
           answer c = s \<and> textSVG (data c) = ps"
proof -
  obtain ns k3 where n: "generateWavyNoise rnd this (noise (options this)) k2 = Inr (ns, k3)"
    using noiseLines_total[of rnd this "nat (noise (options this))" k2]
    by (auto simp: generateWavyNoise_def)
  show ?thesis using assms n
    by (simp add: generate_def split_def Let_def)
qed

lemma chars_constructed:
  "chars (fst (new_CaptchaGenerator rnd bundledFont opts fontsFamily k0)) =
     filter (\<lambda>ch. ch \<notin> set (ignoreChars (options (fst (new_CaptchaGenerator rnd bundledFont opts fontsFamily k0)))))
       (buildCharPreset (presetType (options (fst (new_CaptchaGenerator rnd bundledFont opts fontsFamily k0)))))"
  by (simp add: new_CaptchaGenerator_def split_def Let_def)

lemma inRange_halfRnd: "inRange halfRnd"
  by (simp add: inRange_def halfRnd_def)

lemma generate_valid:
  assumes rnd: "inRange rnd"
    and alphabet: "chars this \<noteq> []"
    and size: "0 \<le> size_opt (options this)" "size_opt (options this) \<le> 2 ^ 32 - 1"
    and fonts: "fontFiles (options this) \<noteq> []"
      "loadAll load (fontFiles (options this)) = Inr fs"
  shows "\<exists>c this' k'. generate rnd load now this k = Inr (c, this', k') \<and>
           int (length (answer c)) = size_opt (options this) \<and>
           set (answer c) \<subseteq> set (chars this)"
proof -
  obtain s k1 where t: "generateText rnd this k = Inr (s, k1)"
    and len: "int (length s) = size_opt (options this)" and sub: "set s \<subseteq> set (chars this)"
    using generateText_ok[OF rnd alphabet size] by blast
  have ne: "fs \<noteq> []" using loadAll_nonempty[OF fonts(2) fonts(1)] .
  obtain ps k2 where l: "layoutText rnd (options this) fs s k1 = Inr (ps, k2)"
    using layoutText_ok[OF rnd ne] by blast
  obtain c k4 where g: "generate rnd load now this k =
      Inr (c, this\<lparr>captchaKey := Some (key c), captchaText := Some s\<rparr>, k4)" "answer c = s"
    using generate_returns[OF t fonts(2) l] by blast
  with len sub show ?thesis by auto
qed

lemma sampleOptions_options:
  "options (fst (new_CaptchaGenerator halfRnd ''font.ttf'' sampleOptions [] 0)) =
     \<lparr>size_opt = 6, ignoreChars = [], noise = 0,
          background = ColourLit ''#ffffff'', width = Num 150,
          height = Num 50, fontSize = Num 36, presetType = ''numbers'',
          fontFiles = [''font.ttf''],
          fontColour = Rgb (Num 127) (Num 127) (Num 127),
          noiseColour = Rgb (Num 127) (Num 127) (Num 127),
          noiseWidth = Num 2, messy = True\<rparr>"
  by (simp add: new_CaptchaGenerator_def randomColor_def randomInt_def js_sub_def halfRnd_def
        spread_def override_def sampleOptions_def noOptions_def)

lemma sampleOptions_chars:
  "chars (fst (new_CaptchaGenerator halfRnd ''font.ttf'' sampleOptions [] 0)) = ''0123456789''"
  unfolding chars_constructed sampleOptions_options
  by (simp add: buildCharPreset_def numbers_def)

lemma sample_generate:
  "\<exists>c this' k'.
     generate halfRnd sampleLoad 1000
       (fst (new_CaptchaGenerator halfRnd ''font.ttf'' sampleOptions [] 0)) 6 = Inr (c, this', k') \<and>
     length (answer c) = 6"
proof -
  let ?g = "fst (new_CaptchaGenerator halfRnd ''font.ttf'' sampleOptions [] 0)"
  have h1: "chars ?g \<noteq> []" using sampleOptions_chars by simp
  have h2: "0 \<le> size_opt (options ?g)" "size_opt (options ?g) \<le> 2 ^ 32 - 1"
    unfolding sampleOptions_options by simp_all
  have h3: "fontFiles (options ?g) \<noteq> []"
    unfolding sampleOptions_options by simp
  have h4: "loadAll sampleLoad (fontFiles (options ?g)) = Inr [sampleFont]"
    unfolding sampleOptions_options by (simp add: sampleLoad_def)
  from generate_valid[OF inRange_halfRnd h1 h2 h3 h4, of 1000 6]
  show ?thesis unfolding sampleOptions_options by auto
qed

lemma drawChars_empty_pool:
  "\<forall>x \<in> set (fst (drawChars rnd [] n k)). x = None"
proof (induction n arbitrary: k)
  case 0
  show ?case by simp
next
  case (Suc n)
  show ?case using Suc[of "Suc k"]
    by (simp add: split_def Let_def snd_randomInt randomInt_zero_based js_index_def)
qed

lemma joinChars_all_None:
  "\<forall>x \<in> set xs. x = None \<Longrightarrow> joinChars xs = []"
  by (induction xs) (simp_all add: joinChars_def)

lemma layoutText_empty:
  "layoutText rnd opt fs [] k = Inr ([], k)"
  by (cases fs) (simp_all add: layoutText_def layoutStraight_def layoutMessy_def Let_def)

lemma digitsIgnored_options:
  "options (fst (new_CaptchaGenerator halfRnd ''font.ttf'' digitsIgnored [] 0)) =
     \<lparr>size_opt = 6, ignoreChars = ''0123456789'', noise = 2,
          background = ColourLit ''#ffffff'', width = Num 150,
          height = Num 50, fontSize = Num 36, presetType = ''numbers'',
          fontFiles = [''font.ttf''],
          fontColour = Rgb (Num 127) (Num 127) (Num 127),
          noiseColour = Rgb (Num 127) (Num 127) (Num 127),
          noiseWidth = Num 2, messy = True\<rparr>"
  by (simp add: new_CaptchaGenerator_def randomColor_def randomInt_def js_sub_def halfRnd_def
        spread_def override_def digitsIgnored_def noOptions_def)

lemma digitsIgnored_chars:
  "chars (fst (new_CaptchaGenerator halfRnd ''font.ttf'' digitsIgnored [] 0)) = []"
  unfolding chars_constructed digitsIgnored_options
  by (simp add: buildCharPreset_def numbers_def)

lemma toString36_nonempty: "toString36 n \<noteq> []"
  by (subst toString36.simps) simp

lemma generateKey_nonempty: "fst (generateKey rnd now len k) \<noteq> []"
  by (simp add: generateKey_def split_def Let_def toString36_nonempty)

lemma generate_sets_state:
  assumes "generate rnd load now this k = Inr (c, this', k')"
  shows "this' = this\<lparr>captchaKey := Some (key c), captchaText := Some (answer c)\<rparr> \<and>
         key c \<noteq> []"
  using assms generateKey_nonempty
  by (auto simp add: generate_def split_def Let_def split: sum.splits)

lemma storeCaptcha_truthy:
  assumes "captchaKey this = Some ky" "ky \<noteq> []" "captchaText this = Some t" "t \<noteq> []"
  shows "storeCaptcha ttl (Fn f) this st = f (''captcha:'' @ ky) t ttl st"
  using assms by (cases ky; cases t) (simp_all add: storeCaptcha_def)



lemma wideNoise_instance:
  "fst (new_CaptchaGenerator halfRnd ''font.ttf'' wideNoise [] 0) =
     \<lparr>defaults =
         \<lparr>size_opt = 6, ignoreChars = [], noise = 2,
            background = ColourLit ''#ffffff'', width = Num 150,
            height = Num 50, fontSize = Num 36, presetType = ''all'',
            fontFiles = [''font.ttf''],
            fontColour = Rgb (Num 127) (Num 127) (Num 127),
            noiseColour = Rgb (Num 127) (Num 127) (Num 127),
            noiseWidth = Num 2, messy = True\<rparr>,
      options =
         \<lparr>size_opt = 6, ignoreChars = [], noise = 1,
            background = ColourLit ''#ffffff'', width = Num 150,
            height = Num 50, fontSize = Num 36, presetType = ''all'',
            fontFiles = [''font.ttf''],
            fontColour = Rgb (Num 127) (Num 127) (Num 127),
            noiseColour = Rgb (Num 127) (Num 127) (Num 127),
            noiseWidth = Num 5, messy = True\<rparr>,
      chars = ''ABCDEFGHIJKLMNOPQRSTUVWXYZabcdefghijklmnopqrstuvwxyz0123456789'',
      captchaKey = None, captchaText = None\<rparr>"
  by (simp add: new_CaptchaGenerator_def randomColor_def randomInt_def js_sub_def halfRnd_def
        spread_def override_def wideNoise_def noOptions_def buildCharPreset_def
        upper_def lower_def numbers_def)

lemma sampleOptions_instance:
  "fst (new_CaptchaGenerator halfRnd ''font.ttf'' sampleOptions [] 0) =
     \<lparr>defaults =
         \<lparr>size_opt = 6, ignoreChars = [], noise = 2,
            background = ColourLit ''#ffffff'', width = Num 150,
            height = Num 50, fontSize = Num 36, presetType = ''all'',
            fontFiles = [''font.ttf''],
            fontColour = Rgb (Num 127) (Num 127) (Num 127),
            noiseColour = Rgb (Num 127) (Num 127) (Num 127),
            noiseWidth = Num 2, messy = True\<rparr>,
      options =
         \<lparr>size_opt = 6, ignoreChars = [], noise = 0,
            background = ColourLit ''#ffffff'', width = Num 150,
            height = Num 50, fontSize = Num 36, presetType = ''numbers'',
            fontFiles = [''font.ttf''],
            fontColour = Rgb (Num 127) (Num 127) (Num 127),
            noiseColour = Rgb (Num 127) (Num 127) (Num 127),
            noiseWidth = Num 2, messy = True\<rparr>,
      chars = ''0123456789'', captchaKey = None, captchaText = None\<rparr>"
  by (simp add: new_CaptchaGenerator_def randomColor_def randomInt_def js_sub_def halfRnd_def
        spread_def override_def sampleOptions_def noOptions_def buildCharPreset_def
        numbers_def)

lemma verifyCaptcha_true_iff:
  assumes "f (''captcha:'' @ ky) st = Inr v"
  shows "(verifyCaptcha u ky (Fn f) this st = Inr (JBool True)) = (v = JStr u \<and> u \<noteq> [])"
  using assms by (cases v) (auto simp add: verifyCaptcha_def)

lemma storeCaptcha_empty_answer:
  assumes "captchaText this = Some []"
  shows "storeCaptcha ttl (Fn f) this st = Inl (Error ''No captcha generated yet.'')"
  using assms by (simp add: storeCaptcha_def split: option.splits list.splits)

lemma storeCaptcha_after_generate:
  assumes "generate rnd load now this k = Inr (c, this', k')"
  shows "storeCaptcha ttl (Fn f) this' st =
           (if answer c = [] then Inl (Error ''No captcha generated yet.'')
            else f (''captcha:'' @ key c) (answer c) ttl st)"
proof -
  from generate_sets_state[OF assms]
  have s: "captchaKey this' = Some (key c)" "captchaText this' = Some (answer c)"
    and ky: "key c \<noteq> []" by simp_all
  show ?thesis
  proof (cases "answer c = []")
    case True
    then show ?thesis using s(2) by (simp add: storeCaptcha_empty_answer)
  next
    case False
    then show ?thesis using storeCaptcha_truthy[OF s(1) ky s(2) False] by simp
  qed
qed

lemma digitsIgnored_generate:
  "\<exists>c this' k'.
     generate halfRnd sampleLoad 1000
       (fst (new_CaptchaGenerator halfRnd ''font.ttf'' digitsIgnored [] 0)) 6 = Inr (c, this', k') \<and>
     answer c = []"
proof -
  let ?g = "fst (new_CaptchaGenerator halfRnd ''font.ttf'' digitsIgnored [] 0)"
  let ?cs = "drawChars halfRnd [] (nat (size_opt (options ?g))) 6"
  have "joinChars (fst ?cs) = []"
    using joinChars_all_None[OF drawChars_empty_pool] .
  then have t: "generateText halfRnd ?g 6 = Inr ([], snd ?cs)"
    unfolding generateText_def digitsIgnored_chars
    by (simp add: digitsIgnored_options split_def Let_def)
  have f: "loadAll sampleLoad (fontFiles (options ?g)) = Inr [sampleFont]"
    unfolding digitsIgnored_options by (simp add: sampleLoad_def)
  have l: "layoutText halfRnd (options ?g) [sampleFont] [] (snd ?cs) = Inr ([], snd ?cs)"
    by (rule layoutText_empty)
  from generate_returns[OF t f l, of 1000]
  show ?thesis by fastforce
qed

lemma verifyCaptcha_fetched:
  assumes "g (''captcha:'' @ ky) st = Inr v"
  shows "verifyCaptcha u ky (Fn g) this st =
           Inr (if truthy v then JBool (v = JStr u) else v)"
  using assms by (simp add: verifyCaptcha_def)








subsection \<open>The claims\<close>

text \<open>
  C1. For a generator built by the constructor from any options, with a non-empty
  character pool, a size between 0 and \<open>2^32 - 1\<close>, a non-empty list of font files
  that all load, and a random source within \<open>[0, 1)\<close>: \<open>generate\<close> returns a challenge
  whose answer text has exactly \<open>size\<close> characters, each a member of the pool; the pool
  is the preset expansion minus \<open>ignoreChars\<close>, so no character of the answer is in
  \<open>ignoreChars\<close>.
\<close>

theorem generate_answer_text:
  assumes rnd: "inRange rnd"
    and inst: "this = fst (new_CaptchaGenerator rnd bundledFont opts fontsFamily k0)"
    and alphabet: "chars this \<noteq> []"
    and size: "0 \<le> size_opt (options this)" "size_opt (options this) \<le> 2 ^ 32 - 1"
    and fonts: "fontFiles (options this) \<noteq> []"
      "loadAll load (fontFiles (options this)) = Inr fs"
  shows "\<exists>c this' k'. generate rnd load now this k = Inr (c, this', k') \<and>
           int (length (answer c)) = size_opt (options this) \<and>
           set (answer c) \<subseteq> set (chars this) \<and>
           set (chars this) =
             set (buildCharPreset (presetType (options this))) - set (ignoreChars (options this)) \<and>
           set (answer c) \<inter> set (ignoreChars (options this)) = {}"
proof -
  obtain c this' k' where g: "generate rnd load now this k = Inr (c, this', k')"
    and len: "int (length (answer c)) = size_opt (options this)"
    and sub: "set (answer c) \<subseteq> set (chars this)"
    using generate_valid[OF rnd alphabet size fonts] by blast
  have cs: "set (chars this) =
      set (buildCharPreset (presetType (options this))) - set (ignoreChars (options this))"
    unfolding inst chars_constructed by auto
  have "set (answer c) \<inter> set (ignoreChars (options this)) = {}" using sub cs by auto
  with g len sub cs show ?thesis by auto
qed

theorem generate_answer_text_witness:
  "inRange halfRnd \<and>
   chars (fst (new_CaptchaGenerator halfRnd ''font.ttf'' sampleOptions [] 0)) = ''0123456789'' \<and>
   (\<exists>c this' k'.
      generate halfRnd sampleLoad 1000
        (fst (new_CaptchaGenerator halfRnd ''font.ttf'' sampleOptions [] 0)) 6 = Inr (c, this', k') \<and>
      length (answer c) = 6 \<and> set (answer c) \<subseteq> set ''0123456789'')"
proof -
  let ?g = "fst (new_CaptchaGenerator halfRnd ''font.ttf'' sampleOptions [] 0)"
  have h1: "chars ?g \<noteq> []" using sampleOptions_chars by simp
  have h2: "0 \<le> size_opt (options ?g)" "size_opt (options ?g) \<le> 2 ^ 32 - 1"
    unfolding sampleOptions_options by simp_all
  have h3: "fontFiles (options ?g) \<noteq> []"
    unfolding sampleOptions_options by simp
  have h4: "loadAll sampleLoad (fontFiles (options ?g)) = Inr [sampleFont]"
    unfolding sampleOptions_options by (simp add: sampleLoad_def)
  from generate_answer_text[OF inRange_halfRnd refl h1 h2 h3 h4, of 1000 6]
  show ?thesis using inRange_halfRnd sampleOptions_chars sampleOptions_options by auto
qed

text \<open>
  C2 (the code at a missing entry). The demo store's \<open>getFn\<close> answers \<open>null\<close> for a
  key it does not hold; \<open>verifyCaptcha\<close> does not throw and returns that \<open>null\<close>, which
  is not the boolean \<open>false\<close>.
\<close>

theorem verifyCaptcha_missing_entry:
  "verifyCaptcha ''ABC'' ''k1'' (Fn memoryGet) this Map.empty = Inr JNull \<and>
   verifyCaptcha ''ABC'' ''k1'' (Fn memoryGet) this Map.empty \<noteq> Inr (JBool False)"
  by (simp add: verifyCaptcha_def memoryGet_def)

text \<open>
  C3 (as amended). An empty character pool raises no error. For a generator built by the
  constructor whose pool is empty, with a size of at most \<open>2^32 - 1\<close> and fonts that
  load, \<open>generate\<close> returns a challenge: every draw reads \<open>undefined\<close>, the joined answer
  text is the empty string, the image has no glyph path, and the empty answer is stored
  on the instance.
\<close>

theorem generate_empty_alphabet:
  assumes inst: "this = fst (new_CaptchaGenerator rnd bundledFont opts fontsFamily k0)"
    and alphabet: "chars this = []"
    and size: "size_opt (options this) \<le> 2 ^ 32 - 1"
    and fonts: "loadAll load (fontFiles (options this)) = Inr fs"
  shows "\<exists>c this' k'. generate rnd load now this k = Inr (c, this', k') \<and>
           answer c = [] \<and> textSVG (data c) = [] \<and> captchaText this' = Some []"
proof -
  let ?cs = "drawChars rnd [] (nat (size_opt (options this))) k"
  have "joinChars (fst ?cs) = []"
    using joinChars_all_None[OF drawChars_empty_pool] .
  then have t: "generateText rnd this k = Inr ([], snd ?cs)"
    using alphabet size by (simp add: generateText_def split_def Let_def)
  have l: "layoutText rnd (options this) fs [] (snd ?cs) = Inr ([], snd ?cs)"
    by (rule layoutText_empty)
  from generate_returns[OF t fonts l, of now]
  show ?thesis by fastforce
qed

theorem generate_empty_alphabet_witness:
  "chars (fst (new_CaptchaGenerator halfRnd ''font.ttf'' digitsIgnored [] 0)) = [] \<and>
   (\<exists>c this' k'.
      generate halfRnd sampleLoad 1000
        (fst (new_CaptchaGenerator halfRnd ''font.ttf'' digitsIgnored [] 0)) 6 = Inr (c, this', k') \<and>
      answer c = [] \<and> textSVG (data c) = [] \<and> captchaText this' = Some [])"
proof -
  let ?g = "fst (new_CaptchaGenerator halfRnd ''font.ttf'' digitsIgnored [] 0)"
  have h2: "size_opt (options ?g) \<le> 2 ^ 32 - 1"
    unfolding digitsIgnored_options by simp
  have h3: "loadAll sampleLoad (fontFiles (options ?g)) = Inr [sampleFont]"
    unfolding digitsIgnored_options by (simp add: sampleLoad_def)
  from generate_empty_alphabet[OF refl digitsIgnored_chars h2 h3, of 1000 6]
  show ?thesis using digitsIgnored_chars by simp
qed

text \<open>
  C3 as stated fails: with the preset \<open>numbers\<close> and all ten digits ignored the pool is
  empty, and \<open>generate\<close> does not end in an error.
\<close>

theorem generate_empty_alphabet_counterexample:
  "chars (fst (new_CaptchaGenerator halfRnd ''font.ttf'' digitsIgnored [] 0)) = [] \<and>
   \<not> isl (generate halfRnd sampleLoad 1000
            (fst (new_CaptchaGenerator halfRnd ''font.ttf'' digitsIgnored [] 0)) 6)"
proof -
  let ?g = "fst (new_CaptchaGenerator halfRnd ''font.ttf'' digitsIgnored [] 0)"
  have t: "generateText halfRnd ?g 6 = Inr ([], 12)"
    unfolding generateText_def digitsIgnored_options digitsIgnored_chars
    by (simp add: randomInt_zero_based js_index_def joinChars_def eval_nat_numeral)
  have l: "loadAll sampleLoad (fontFiles (options ?g)) = Inr [sampleFont]"
    unfolding digitsIgnored_options by (simp add: sampleLoad_def)
  have n: "\<exists>ns k3. generateWavyNoise halfRnd ?g (noise (options ?g)) 12 = Inr (ns, k3)"
    using noiseLines_total by (simp add: generateWavyNoise_def)
  have "\<not> isl (generate halfRnd sampleLoad 1000 ?g 6)"
    using t l n by (auto simp add: generate_def layoutText_empty split_def Let_def)
  then show ?thesis using digitsIgnored_chars by simp
qed

text \<open>
  C4 (the code on the default canvas, 150 wide). With every draw one half the segment
  count is 3 and the step is 50; each round moves the control point one step and the end
  point a second step, so the path starts at x = 0 and ends at x = 300.
\<close>

theorem generateWavyNoise_path:
  "map_sum id (map pathData \<circ> fst)
     (generateWavyNoise halfRnd (fst (new_CaptchaGenerator halfRnd ''font.ttf'' sampleOptions [] 0)) 1 12) =
     Inr [[M (Num 0) (Num 25), Q (Num 50) (Num 25) (Num 100) (Num 25),
           Q (Num 150) (Num 25) (Num 200) (Num 25),
           Q (Num 250) (Num 25) (Num 300) (Num 25)]]"
  unfolding sampleOptions_instance
  by (simp add: generateWavyNoise_def noiseLine_def randomInt_def js_sub_def halfRnd_def
      split_def Let_def eval_nat_numeral)



text \<open>
  C6 (as amended). Every \<open>generate\<close> that returns overwrites \<open>captchaKey\<close> and
  \<open>captchaText\<close> with the key and answer it returns. \<open>storeCaptcha\<close> reads exactly these
  two fields: it passes the prefixed key and the answer to \<open>setFn\<close>, and throws when the
  answer is the empty string. \<open>verifyCaptcha\<close> does not read the instance: on any two
  instances it gives the same result, and the expected value is what \<open>getFn\<close> fetches
  for the prefixed key argument, a truthy fetched value being compared with the user
  input and a falsy one returned as it is. The last answer is the expected value only by
  way of the store: after \<open>generate\<close> and a \<open>storeCaptcha\<close> that succeeds, on a store
  whose \<open>getFn\<close> returns the stored answer for the prefixed key, \<open>verifyCaptcha\<close> with
  the returned key is true for exactly that answer.
\<close>

theorem lastAnswer_lifecycle:
  "(generate rnd load now this k = Inr (c, this', k') \<longrightarrow>
      captchaKey this' = Some (key c) \<and> captchaText this' = Some (answer c) \<and>
      storeCaptcha ttl (Fn f) this' st =
        (if answer c = [] then Inl (Error ''No captcha generated yet.'')
         else f (''captcha:'' @ key c) (answer c) ttl st)) \<and>
   verifyCaptcha userInput ky getFn this st' = verifyCaptcha userInput ky getFn that st' \<and>
   (g (''captcha:'' @ ky) st' = Inr v \<longrightarrow>
      verifyCaptcha userInput ky (Fn g) this st' =
        Inr (if truthy v then JBool (v = JStr userInput) else v)) \<and>
   (generate rnd load now this k = Inr (c, this', k') \<and>
    storeCaptcha ttl (Fn f) this' st = Inr st2 \<and>
    g (''captcha:'' @ key c) st2 = Inr (JStr (answer c)) \<longrightarrow>
      verifyCaptcha userInput (key c) (Fn g) that st2 = Inr (JBool (userInput = answer c)))"
proof (intro conjI impI)
  assume gen: "generate rnd load now this k = Inr (c, this', k')"
  from generate_sets_state[OF gen]
  show "captchaKey this' = Some (key c)" and "captchaText this' = Some (answer c)"
    by simp_all
  show "storeCaptcha ttl (Fn f) this' st =
        (if answer c = [] then Inl (Error ''No captcha generated yet.'')
         else f (''captcha:'' @ key c) (answer c) ttl st)"
    by (rule storeCaptcha_after_generate[OF gen])
next
  show "verifyCaptcha userInput ky getFn this st' = verifyCaptcha userInput ky getFn that st'"
    by (simp add: verifyCaptcha_def)
next
  assume "g (''captcha:'' @ ky) st' = Inr v"
  then show "verifyCaptcha userInput ky (Fn g) this st' =
        Inr (if truthy v then JBool (v = JStr userInput) else v)"
    by (rule verifyCaptcha_fetched)
next
  assume a: "generate rnd load now this k = Inr (c, this', k') \<and>
    storeCaptcha ttl (Fn f) this' st = Inr st2 \<and>
    g (''captcha:'' @ key c) st2 = Inr (JStr (answer c))"
  then have gen: "generate rnd load now this k = Inr (c, this', k')"
    and sto: "storeCaptcha ttl (Fn f) this' st = Inr st2"
    and fetched: "g (''captcha:'' @ key c) st2 = Inr (JStr (answer c))"
    by simp_all
  have ne: "answer c \<noteq> []"
    using storeCaptcha_after_generate[OF gen, of ttl f st] sto by auto
  show "verifyCaptcha userInput (key c) (Fn g) that st2 = Inr (JBool (userInput = answer c))"
    using verifyCaptcha_fetched[where g = g and ky = "key c" and st = st2
        and v = "JStr (answer c)" and u = userInput and this = that] fetched ne
    by auto
qed

theorem lastAnswer_lifecycle_witness:
  "\<exists>c this' k'.
     generate halfRnd sampleLoad 1000
       (fst (new_CaptchaGenerator halfRnd ''font.ttf'' sampleOptions [] 0)) 6 = Inr (c, this', k') \<and>
     captchaKey this' = Some (key c) \<and> captchaText this' = Some (answer c) \<and>
     storeCaptcha (60 :: nat) (Fn memorySet) this' Map.empty =
       Inr [''captcha:'' @ key c \<mapsto> answer c] \<and>
     memoryGet (''captcha:'' @ key c) [''captcha:'' @ key c \<mapsto> answer c] =
       Inr (JStr (answer c)) \<and>
     verifyCaptcha (answer c) (key c) (Fn memoryGet) afterSecond
       [''captcha:'' @ key c \<mapsto> answer c] = Inr (JBool True) \<and>
     verifyCaptcha ''WRONG'' (key c) (Fn memoryGet) afterSecond
       [''captcha:'' @ key c \<mapsto> answer c] = Inr (JBool False)"
proof -
  obtain c this' k' where g:
    "generate halfRnd sampleLoad 1000
       (fst (new_CaptchaGenerator halfRnd ''font.ttf'' sampleOptions [] 0)) 6 = Inr (c, this', k')"
    and l: "length (answer c) = 6"
    using sample_generate by blast
  have ne: "answer c \<noteq> []" using l by auto
  have wrong: "''WRONG'' \<noteq> answer c"
  proof
    assume "''WRONG'' = answer c"
    then have "length (answer c) = length ''WRONG''" by simp
    then show False using l by simp
  qed
  let ?st = "[''captcha:'' @ key c \<mapsto> answer c]"
  note at_sample =
    lastAnswer_lifecycle[where rnd = halfRnd and load = sampleLoad and now = 1000 and k = 6
      and this = "fst (new_CaptchaGenerator halfRnd ''font.ttf'' sampleOptions [] 0)"
      and c = c and this' = this' and k' = k' and ttl = "60 :: nat" and f = memorySet
      and st = Map.empty and g = memoryGet and ?st2.0 = ?st and that = afterSecond]
  note gen_part = at_sample[THEN conjunct1, rule_format]
  note round_trip = at_sample[THEN conjunct2, THEN conjunct2, THEN conjunct2, rule_format]
  have s: "captchaKey this' = Some (key c) \<and> captchaText this' = Some (answer c) \<and>
      storeCaptcha (60 :: nat) (Fn memorySet) this' Map.empty =
        (if answer c = [] then Inl (Error ''No captcha generated yet.'')
         else memorySet (''captcha:'' @ key c) (answer c) (60 :: nat) Map.empty)"
    by (rule gen_part[OF g])
  then have sto: "storeCaptcha (60 :: nat) (Fn memorySet) this' Map.empty = Inr ?st"
    using ne by (simp add: memorySet_def)
  have fetched: "memoryGet (''captcha:'' @ key c) ?st = Inr (JStr (answer c))"
    using ne by (simp add: memoryGet_def)
  have pre: "generate halfRnd sampleLoad 1000
       (fst (new_CaptchaGenerator halfRnd ''font.ttf'' sampleOptions [] 0)) 6 = Inr (c, this', k') \<and>
    storeCaptcha (60 :: nat) (Fn memorySet) this' Map.empty = Inr ?st \<and>
    memoryGet (''captcha:'' @ key c) ?st = Inr (JStr (answer c))"
    using g sto fetched by simp
  have ok: "verifyCaptcha (answer c) (key c) (Fn memoryGet) afterSecond ?st = Inr (JBool True)"
    using round_trip[OF pre, where userInput = "answer c"] by simp
  have bad: "verifyCaptcha ''WRONG'' (key c) (Fn memoryGet) afterSecond ?st = Inr (JBool False)"
    using round_trip[OF pre, where userInput = "''WRONG''"] wrong by simp
  from g s sto fetched ok bad show ?thesis
    by (intro exI[of _ c] exI[of _ this'] exI[of _ k']) simp
qed

text \<open>
  C6 as stated fails: on an instance whose last answer is \<open>ABC\<close>, with the store holding
  \<open>XYZ\<close> under the key \<open>k1\<close> of an earlier challenge, the input \<open>ABC\<close> is rejected and the
  input \<open>XYZ\<close> is accepted. The expected value is the fetched one, not the last answer.
\<close>

theorem lastAnswer_lifecycle_counterexample:
  "captchaText afterSecond = Some ''ABC'' \<and>
   verifyCaptcha ''ABC'' ''k1'' (Fn memoryGet) afterSecond [''captcha:k1'' \<mapsto> ''XYZ''] =
     Inr (JBool False) \<and>
   verifyCaptcha ''XYZ'' ''k1'' (Fn memoryGet) afterSecond [''captcha:k1'' \<mapsto> ''XYZ''] =
     Inr (JBool True)"
  by (simp add: afterSecond_def verifyCaptcha_def memoryGet_def)

text \<open>
  C7 (the code at the options \<open>{ noiseWidth: 5, noise: 1 }\<close>). The merged options
  hold the stroke width 5, and the one noise path that
  \<open>generateWavyNoise\<close> emits has the configured colour, no fill, and the stroke width 2 of
  \<open>this.defaults\<close>.
\<close>

theorem generateWavyNoise_stroke_width:
  "noiseWidth (options (fst (new_CaptchaGenerator halfRnd ''font.ttf'' wideNoise [] 0))) = Num 5 \<and>
   map_sum id (map (\<lambda>p. (stroke p, noiseFill p, strokeWidth p)) \<circ> fst)
     (generateWavyNoise halfRnd (fst (new_CaptchaGenerator halfRnd ''font.ttf'' wideNoise [] 0)) 1 12) =
     Inr [(Rgb (Num 127) (Num 127) (Num 127), ''none'', Num 2)]"
  unfolding wideNoise_instance
  by (simp add: generateWavyNoise_def noiseLine_def randomInt_def js_sub_def halfRnd_def
      split_def Let_def eval_nat_numeral)

text \<open>
  C8. \<open>buildCharPreset\<close> is a total function of its argument alone: each of the seven
  recognised names yields its documented character set, written out here as a literal,
  and every other name yields the union of upper-case letters, lower-case letters and
  digits.
\<close>

theorem buildCharPreset_table:
  "buildCharPreset ''upper'' = ''ABCDEFGHIJKLMNOPQRSTUVWXYZ'' \<and>
   buildCharPreset ''lower'' = ''abcdefghijklmnopqrstuvwxyz'' \<and>
   buildCharPreset ''numbers'' = ''0123456789'' \<and>
   buildCharPreset ''letters'' = ''ABCDEFGHIJKLMNOPQRSTUVWXYZabcdefghijklmnopqrstuvwxyz'' \<and>
   buildCharPreset ''upper-alphanum'' = ''ABCDEFGHIJKLMNOPQRSTUVWXYZ0123456789'' \<and>
   buildCharPreset ''lower-alphanum'' = ''abcdefghijklmnopqrstuvwxyz0123456789'' \<and>
   buildCharPreset ''all'' =
     ''ABCDEFGHIJKLMNOPQRSTUVWXYZabcdefghijklmnopqrstuvwxyz0123456789'' \<and>
   (\<forall>t. t \<notin> set presetNames \<longrightarrow>
      buildCharPreset t =
        ''ABCDEFGHIJKLMNOPQRSTUVWXYZabcdefghijklmnopqrstuvwxyz0123456789'')"
  by (simp add: buildCharPreset_def presetNames_def upper_def lower_def numbers_def)

theorem buildCharPreset_table_witness:
  "''hex'' \<notin> set presetNames \<and>
   buildCharPreset ''hex'' =
     ''ABCDEFGHIJKLMNOPQRSTUVWXYZabcdefghijklmnopqrstuvwxyz0123456789''"
proof -
  have h: "''hex'' \<notin> set presetNames"
    by (simp add: presetNames_def)
  from buildCharPreset_table have
    "\<forall>t. t \<notin> set presetNames \<longrightarrow>
       buildCharPreset t =
         ''ABCDEFGHIJKLMNOPQRSTUVWXYZabcdefghijklmnopqrstuvwxyz0123456789''"
    by blast
  with h show ?thesis by blast
qed

text \<open>
  C9 (as amended). \<open>storeCaptcha\<close> throws when \<open>setFn\<close> is not a function, and throws on
  an instance fresh from the constructor, on which \<open>generate\<close> has not run. After a
  \<open>generate\<close> that returned, it throws as well when the answer text of that challenge is
  the empty string; otherwise it is exactly one application of \<open>setFn\<close>, to the key
  prefixed with \<open>captcha:\<close>, the answer text of that challenge, and \<open>ttl\<close>.
\<close>

theorem storeCaptcha_contract:
  "storeCaptcha ttl NotCallable this st = Inl (Error ''setFn must be a function'') \<and>
   storeCaptcha ttl (Fn f) (fst (new_CaptchaGenerator rnd bundledFont opts fontsFamily k0)) st =
     Inl (Error ''No captcha generated yet.'') \<and>
   (generate rnd load now this k = Inr (c, this', k') \<longrightarrow>
      storeCaptcha ttl (Fn f) this' st =
        (if answer c = [] then Inl (Error ''No captcha generated yet.'')
         else f (''captcha:'' @ key c) (answer c) ttl st))"
proof (intro conjI impI)
  show "storeCaptcha ttl NotCallable this st = Inl (Error ''setFn must be a function'')"
    by (simp add: storeCaptcha_def)
  show "storeCaptcha ttl (Fn f) (fst (new_CaptchaGenerator rnd bundledFont opts fontsFamily k0)) st =
     Inl (Error ''No captcha generated yet.'')"
    by (simp add: storeCaptcha_def new_CaptchaGenerator_def split_def Let_def)
next
  assume "generate rnd load now this k = Inr (c, this', k')"
  then show "storeCaptcha ttl (Fn f) this' st =
        (if answer c = [] then Inl (Error ''No captcha generated yet.'')
         else f (''captcha:'' @ key c) (answer c) ttl st)"
    by (rule storeCaptcha_after_generate)
qed

theorem storeCaptcha_contract_witness:
  "\<exists>c this' k'.
     generate halfRnd sampleLoad 1000
       (fst (new_CaptchaGenerator halfRnd ''font.ttf'' sampleOptions [] 0)) 6 = Inr (c, this', k') \<and>
     answer c \<noteq> [] \<and>
     storeCaptcha (60 :: nat) (Fn recordCall) this' [] =
       Inr [(''captcha:'' @ key c, answer c, 60)]"
proof -
  note after_generate = storeCaptcha_contract[THEN conjunct2, THEN conjunct2, rule_format]
  obtain c this' k' where g:
    "generate halfRnd sampleLoad 1000
       (fst (new_CaptchaGenerator halfRnd ''font.ttf'' sampleOptions [] 0)) 6 = Inr (c, this', k')"
    and l: "length (answer c) = 6"
    using sample_generate by blast
  have ne: "answer c \<noteq> []" using l by auto
  have "storeCaptcha (60 :: nat) (Fn recordCall) this' [] =
          (if answer c = [] then Inl (Error ''No captcha generated yet.'')
           else recordCall (''captcha:'' @ key c) (answer c) 60 [])"
    by (rule after_generate[OF g])
  then have "storeCaptcha (60 :: nat) (Fn recordCall) this' [] =
          Inr [(''captcha:'' @ key c, answer c, 60)]"
    using ne by (simp add: recordCall_def)
  with g ne show ?thesis
    by (intro exI[of _ c] exI[of _ this'] exI[of _ k']) simp
qed

text \<open>
  C9 as stated fails: with the preset \<open>numbers\<close> and all ten digits ignored, \<open>generate\<close>
  returns the empty answer, and the \<open>storeCaptcha\<close> that follows throws although \<open>setFn\<close>
  is a function and \<open>generate\<close> has run; \<open>setFn\<close> is not applied.
\<close>

theorem storeCaptcha_contract_counterexample:
  "\<not> isl (generate halfRnd sampleLoad 1000
            (fst (new_CaptchaGenerator halfRnd ''font.ttf'' digitsIgnored [] 0)) 6) \<and>
   storeCaptcha (60 :: nat) (Fn recordCall)
     (fst (snd (projr (generate halfRnd sampleLoad 1000
        (fst (new_CaptchaGenerator halfRnd ''font.ttf'' digitsIgnored [] 0)) 6)))) [] =
     Inl (Error ''No captcha generated yet.'')"
proof -
  obtain c this' k' where g:
    "generate halfRnd sampleLoad 1000
       (fst (new_CaptchaGenerator halfRnd ''font.ttf'' digitsIgnored [] 0)) 6 = Inr (c, this', k')"
    and e: "answer c = []"
    using digitsIgnored_generate by blast
  have "storeCaptcha (60 :: nat) (Fn recordCall) this' [] =
          Inl (Error ''No captcha generated yet.'')"
    using storeCaptcha_after_generate[OF g] e by simp
  then show ?thesis using g by simp
qed

text \<open>
  C10 (as amended). For an empty answer text neither mode emits a glyph path. The scale
  division has no guard. In messy mode the measuring pass yields no widths, the total
  width is 0, and for a canvas width above 0 the quotient is plus infinity, so the scale
  is \<open>min(1, +Infinity) = 1\<close>.
\<close>

theorem empty_text_layout:
  "layoutStraight opt fs [] = Inr [] \<and>
   layoutMessy rnd opt fs [] k = Inr ([], k) \<and>
   measureMessy rnd opt fs [] k = Inr ([], k) \<and>
   messyTotalWidth [] = Num 0 \<and>
   (js_lt (Num 0) (width opt) \<longrightarrow> messyScale opt (messyTotalWidth []) = Num 1)"
proof (intro conjI impI)
  show "layoutStraight opt fs [] = Inr []"
    by (cases fs) (simp_all add: layoutStraight_def)
  show "layoutMessy rnd opt fs [] k = Inr ([], k)"
    by (simp add: layoutMessy_def)
  show "measureMessy rnd opt fs [] k = Inr ([], k)"
    by simp
  show "messyTotalWidth [] = Num 0"
    by (simp add: messyTotalWidth_def)
next
  assume "js_lt (Num 0) (width opt)"
  then show "messyScale opt (messyTotalWidth []) = Num 1"
    by (cases "width opt") (simp_all add: messyScale_def messyTotalWidth_def js_min_def)
qed

theorem empty_text_layout_witness:
  "js_lt (Num 0) (width (options (fst (new_CaptchaGenerator halfRnd ''font.ttf'' sampleOptions [] 0)))) \<and>
   messyScale (options (fst (new_CaptchaGenerator halfRnd ''font.ttf'' sampleOptions [] 0)))
     (messyTotalWidth []) = Num 1"
proof -
  let ?opt = "options (fst (new_CaptchaGenerator halfRnd ''font.ttf'' sampleOptions [] 0))"
  have h: "js_lt (Num 0) (width ?opt)"
    unfolding sampleOptions_options by simp
  from empty_text_layout[THEN conjunct2, THEN conjunct2, THEN conjunct2, THEN conjunct2,
      rule_format, OF h] h
  show ?thesis by simp
qed

text \<open>
  C10 as stated fails in straight mode: for an empty text on the default canvas the
  total width is \<open>3 * (0 - 1) = -3\<close>, not 0, and the scale is \<open>140 / -3\<close>, not 1.
\<close>

theorem empty_text_layout_counterexample:
  "straightTotalWidth (options (fst (new_CaptchaGenerator halfRnd ''font.ttf'' sampleOptions [] 0)))
     sampleFont (map (charToGlyph sampleFont) []) (length ([] :: string)) = Num (- 3) \<and>
   straightScale (options (fst (new_CaptchaGenerator halfRnd ''font.ttf'' sampleOptions [] 0)))
     (Num (- 3)) = Num (- 140 / 3) \<and>
   Num (- 140 / 3) \<noteq> Num 1"
  unfolding sampleOptions_options
  by (simp add: straightTotalWidth_def straightNaturalWidth_def straightScale_def gap_def
      js_sub_def js_min_def)

end
